theory Spec2Isabelle
  imports Main
begin

section \<open>Data model of satchel.go\<close>

text \<open>
  The Go structs \<^verbatim>\<open>Image\<close> and \<^verbatim>\<open>Descriptor\<close>, and the three fields of the
  docker client's \<^verbatim>\<open>types.ImageSummary\<close> that the program reads. Go strings are
  byte sequences compared with \<^verbatim>\<open>==\<close>; they are HOL strings compared with \<open>=\<close>.
\<close>

record Image =
  Registry :: string
  Repository :: string
  Tag :: string
  Public :: bool

record Descriptor =
  Images :: "Image list"

record ImageSummary =
  ID :: string
  ParentID :: string
  RepoTags :: "string list"

text \<open>
  The package-level variables \<^verbatim>\<open>inputFile\<close>, \<^verbatim>\<open>outputFile\<close> and
  \<^verbatim>\<open>includePublic\<close>, set once by flag parsing and read by the stages.
\<close>

record config =
  inputFile :: string
  outputFile :: string
  includePublic :: bool

text \<open>\<^verbatim>\<open>fmt.Sprintf("%s%s:%s", registry, i.Repository, i.Tag)\<close> with the registry
  followed by a slash when it is not empty.\<close>

definition ImageName :: "Image \<Rightarrow> string" where
  "ImageName i =
     (let registry = Registry i;
          registry = (if registry \<noteq> [] then registry @ ''/'' else registry)
      in registry @ Repository i @ '':'' @ Tag i)"

text \<open>\<^verbatim>\<open>fmt.Sprintf("%s:%s", i.Repository, i.Tag)\<close>.\<close>

definition ImageNameNoRegistry :: "Image \<Rightarrow> string" where
  "ImageNameNoRegistry i = Repository i @ '':'' @ Tag i"

section \<open>The resolver: findImageIds and containsTag\<close>

text \<open>The linear scan of \<^verbatim>\<open>containsTag\<close>, returning at the first equal element.\<close>

fun containsTag :: "string \<Rightarrow> string list \<Rightarrow> bool" where
  "containsTag tag [] = False"
| "containsTag tag (searchTag # tags) =
     (if searchTag = tag then True else containsTag tag tags)"

text \<open>
  The inner loop of \<^verbatim>\<open>findImageIds\<close> over the manifest images, for one summary. It
  carries the slice \<^verbatim>\<open>imageIds\<close>: \<^verbatim>\<open>continue\<close> goes on with the next image,
  \<^verbatim>\<open>append\<close> followed by \<^verbatim>\<open>break\<close> leaves the loop with the summary's ID added.
\<close>

fun findImageIds_images :: "config \<Rightarrow> Image list \<Rightarrow> ImageSummary \<Rightarrow> string list \<Rightarrow> string list" where
  "findImageIds_images cfg [] imageSummary imageIds = imageIds"
| "findImageIds_images cfg (img # images) imageSummary imageIds =
     (if Public img \<and> \<not> includePublic cfg
      then findImageIds_images cfg images imageSummary imageIds
      else if containsTag (ImageNameNoRegistry img) (RepoTags imageSummary)
      then imageIds @ [ID imageSummary]
      else findImageIds_images cfg images imageSummary imageIds)"

text \<open>The outer loop over the daemon's summaries; only a summary with an empty
  parent ID enters the inner loop.\<close>

fun findImageIds_summaries :: "config \<Rightarrow> Image list \<Rightarrow> ImageSummary list \<Rightarrow> string list \<Rightarrow> string list" where
  "findImageIds_summaries cfg images [] imageIds = imageIds"
| "findImageIds_summaries cfg images (imageSummary # imageSummaries) imageIds =
     findImageIds_summaries cfg images imageSummaries
       (if ParentID imageSummary = []
        then findImageIds_images cfg images imageSummary imageIds
        else imageIds)"

definition findImageIds :: "config \<Rightarrow> Image list \<Rightarrow> ImageSummary list \<Rightarrow> string list" where
  "findImageIds cfg images imageSummaries = findImageIds_summaries cfg images imageSummaries []"

text \<open>Whether a summary is selected: it is a root image and some manifest image
  that passes the public filter has its local name among the summary's repo-tags.\<close>

definition selected :: "config \<Rightarrow> Image list \<Rightarrow> ImageSummary \<Rightarrow> bool" where
  "selected cfg images s \<longleftrightarrow>
     ParentID s = [] \<and>
     (\<exists>img \<in> set images. \<not> (Public img \<and> \<not> includePublic cfg) \<and>
        Repository img @ '':'' @ Tag img \<in> set (RepoTags s))"

section \<open>The outside world: daemon, files, log\<close>

text \<open>
  What the program does to the outside world is recorded as a trace of events, in the
  order of the calls in the source. \<open>Log\<close> is a line written by \<^verbatim>\<open>log.Printf\<close>;
  the \<open>Call\<close> events are the calls to the docker client, the TOML library and the
  standard library; the \<open>Close\<close> events are the \<^verbatim>\<open>Close\<close> calls run by
  \<^verbatim>\<open>defer\<close> when a function returns.
\<close>

datatype event =
    Log string
  | Call_Stat string
  | Call_LoadFile string
  | Call_Unmarshal
  | Call_NewEnvClient
  | Call_ImagePull string
  | Call_ImageTag string string
  | Call_ImageList
  | Call_ImageSave "string list"
  | Call_Create string
  | Call_NewWriterLevel
  | Call_Copy
  | Close_readerCloser
  | Close_gzipWriter
  | Call_OpenFile string
  | Call_Execute string
  | Close_file string

type_synonym trace = "event list"

text \<open>
  \<^verbatim>\<open>log.Fatal\<close> and \<^verbatim>\<open>log.Fatalf\<close> print the message and exit the process: the
  function does not return and no deferred call runs. A stage therefore either
  returns or ends the run with a message.
\<close>

datatype 'a outcome = Fatal string | Returned 'a

text \<open>
  The answers of the outside world are parameters. Each operation sees the trace of
  everything the program has done before the call, so an answer may depend on the
  earlier calls (a tag may fail because a pull was skipped). An error is its message;
  \<open>None\<close> is Go's \<^verbatim>\<open>nil\<close> error.
\<close>

record docker =
  NewEnvClient :: "trace \<Rightarrow> string option"
  ImagePull :: "trace \<Rightarrow> string \<Rightarrow> string option"
  ImageTag :: "trace \<Rightarrow> string \<Rightarrow> string \<Rightarrow> string option"
  ImageList :: "trace \<Rightarrow> string + ImageSummary list"
  ImageSave :: "trace \<Rightarrow> string list \<Rightarrow> string option"

text \<open>
  The TOML library: \<open>LoadFile\<close> gives an error or a tree of type \<open>'t\<close>;
  \<open>Unmarshal\<close> gives the images it has stored in the descriptor together with the
  error it returns.
\<close>

record 't toml =
  LoadFile :: "trace \<Rightarrow> string \<Rightarrow> string + 't"
  Unmarshal :: "trace \<Rightarrow> 't \<Rightarrow> Image list \<times> string option"

record files =
  Stat :: "trace \<Rightarrow> string \<Rightarrow> string option"
  Create :: "trace \<Rightarrow> string \<Rightarrow> string option"
  NewWriterLevel :: "trace \<Rightarrow> string option"
  Copy :: "trace \<Rightarrow> string option"
  OpenFile :: "trace \<Rightarrow> string \<Rightarrow> string option"
  Execute :: "trace \<Rightarrow> string \<Rightarrow> string option"

section \<open>The manifest loader: validate and loadDescriptor\<close>

definition validate :: "config \<Rightarrow> files \<Rightarrow> trace \<Rightarrow> unit outcome \<times> trace" where
  "validate cfg fs tr =
     (case Stat fs tr (inputFile cfg) of
        Some err \<Rightarrow>
          (Fatal (''Input file '' @ [CHR 0x27] @ inputFile cfg @ [CHR 0x27] @ '' not found''),
           tr @ [Call_Stat (inputFile cfg)])
      | None \<Rightarrow> (Returned (), tr @ [Call_Stat (inputFile cfg)]))"

text \<open>
  The loop \<^verbatim>\<open>for i := range descriptor.Images\<close>, which overwrites an empty tag in
  place, index by index.
\<close>

definition defaultTag :: "nat \<Rightarrow> Image list \<Rightarrow> Image list" where
  "defaultTag i images =
     (if Tag (images ! i) = [] then images[i := (images ! i)\<lparr>Tag := ''latest''\<rparr>] else images)"

definition defaultTags :: "Image list \<Rightarrow> Image list" where
  "defaultTags images = fold defaultTag [0..<length images] images"

text \<open>
  \<^verbatim>\<open>loadDescriptor\<close>: an error of \<^verbatim>\<open>toml.LoadFile\<close> is fatal; the value returned
  by \<^verbatim>\<open>tree.Unmarshal(descriptor)\<close> is dropped, and the loop runs over whatever
  \<^verbatim>\<open>Unmarshal\<close> has left in the descriptor.
\<close>

definition loadDescriptor :: "config \<Rightarrow> 't toml \<Rightarrow> trace \<Rightarrow> Descriptor outcome \<times> trace" where
  "loadDescriptor cfg lib tr =
     (case LoadFile lib tr (inputFile cfg) of
        Inl err \<Rightarrow>
          (Fatal (''Error Loading File '' @ inputFile cfg @ '': '' @ err),
           tr @ [Call_LoadFile (inputFile cfg)])
      | Inr tree \<Rightarrow>
          (let tr1 = tr @ [Call_LoadFile (inputFile cfg)];
               descriptor = \<lparr>Images = fst (Unmarshal lib tr1 tree)\<rparr>;
               tr2 = tr1 @ [Call_Unmarshal]
           in (Returned (descriptor\<lparr>Images := defaultTags (Images descriptor)\<rparr>), tr2)))"

section \<open>The pull and tag stages\<close>

definition newDockerClient :: "docker \<Rightarrow> trace \<Rightarrow> unit outcome \<times> trace" where
  "newDockerClient cli tr =
     (case NewEnvClient cli tr of
        Some err \<Rightarrow> (Fatal err, tr @ [Call_NewEnvClient])
      | None \<Rightarrow> (Returned (), tr @ [Call_NewEnvClient]))"

text \<open>The loop of \<^verbatim>\<open>pullImages\<close>: a public image is skipped by \<^verbatim>\<open>continue\<close>
  when public images are not included; an error of the pull is fatal.\<close>

fun pullImages_loop :: "config \<Rightarrow> docker \<Rightarrow> Image list \<Rightarrow> trace \<Rightarrow> unit outcome \<times> trace" where
  "pullImages_loop cfg cli [] tr = (Returned (), tr)"
| "pullImages_loop cfg cli (img # images) tr =
     (if Public img \<and> \<not> includePublic cfg then pullImages_loop cfg cli images tr
      else
        (let tr1 = tr @ [Log (''Pulling Image '' @ ImageName img)];
             tr2 = tr1 @ [Call_ImagePull (ImageName img)]
         in case ImagePull cli tr1 (ImageName img) of
              Some err \<Rightarrow> (Fatal err, tr2)
            | None \<Rightarrow> pullImages_loop cfg cli images tr2))"

definition pullImages :: "config \<Rightarrow> docker \<Rightarrow> Image list \<Rightarrow> trace \<Rightarrow> unit outcome \<times> trace" where
  "pullImages cfg cli images tr =
     (case newDockerClient cli tr of
        (Fatal msg, tr1) \<Rightarrow> (Fatal msg, tr1)
      | (Returned u, tr1) \<Rightarrow> pullImages_loop cfg cli images tr1)"

text \<open>The loop of \<^verbatim>\<open>tagImages\<close>: the same filter; the value returned by
  \<^verbatim>\<open>cli.ImageTag\<close> is not bound to anything.\<close>

fun tagImages_loop :: "config \<Rightarrow> docker \<Rightarrow> Image list \<Rightarrow> trace \<Rightarrow> unit outcome \<times> trace" where
  "tagImages_loop cfg cli [] tr = (Returned (), tr)"
| "tagImages_loop cfg cli (img # images) tr =
     (if Public img \<and> \<not> includePublic cfg then tagImages_loop cfg cli images tr
      else
        (let src = ImageName img;
             dest = ImageNameNoRegistry img;
             tr1 = tr @ [Log (''Tagging Image '' @ src @ '' -> '' @ dest)];
             dropped = ImageTag cli tr1 src dest;
             tr2 = tr1 @ [Call_ImageTag src dest]
         in tagImages_loop cfg cli images tr2))"

definition tagImages :: "config \<Rightarrow> docker \<Rightarrow> Image list \<Rightarrow> trace \<Rightarrow> unit outcome \<times> trace" where
  "tagImages cfg cli images tr =
     (case newDockerClient cli tr of
        (Fatal msg, tr1) \<Rightarrow> (Fatal msg, tr1)
      | (Returned u, tr1) \<Rightarrow> tagImages_loop cfg cli images tr1)"

section \<open>The archiving stage: saveImages\<close>

text \<open>
  \<^verbatim>\<open>saveImages\<close> in the order of the source: the client, the image list, the
  resolver, the export stream, the output file, the compressing writer; each error so
  far is fatal. Then the two \<^verbatim>\<open>defer\<close> statements are registered and the bytes are
  copied; the error of \<^verbatim>\<open>io.Copy\<close> is assigned to \<^verbatim>\<open>err\<close> and the function ends.
  On return the deferred calls run last-registered first: the reader is closed, then
  the compressing writer. Closing a \<^verbatim>\<open>gzip.Writer\<close> flushes it and does not close the
  file under it; no statement of the function closes \<^verbatim>\<open>outFile\<close>.
\<close>

definition saveImages :: "config \<Rightarrow> docker \<Rightarrow> files \<Rightarrow> Image list \<Rightarrow> trace \<Rightarrow> unit outcome \<times> trace" where
  "saveImages cfg cli fs images tr =
     (case newDockerClient cli tr of
        (Fatal msg, tr1) \<Rightarrow> (Fatal msg, tr1)
      | (Returned u, tr1) \<Rightarrow>
     (case ImageList cli tr1 of
        Inl err \<Rightarrow> (Fatal (''Error Getting Docker Image List: '' @ err), tr1 @ [Call_ImageList])
      | Inr imageSummaries \<Rightarrow>
     (let tr2 = tr1 @ [Call_ImageList];
          imageIds = findImageIds cfg images imageSummaries
      in case ImageSave cli tr2 imageIds of
        Some err \<Rightarrow> (Fatal (''Error saving images: '' @ err), tr2 @ [Call_ImageSave imageIds])
      | None \<Rightarrow>
     (let tr3 = tr2 @ [Call_ImageSave imageIds, Log (''Writing images to '' @ outputFile cfg)]
      in case Create fs tr3 (outputFile cfg) of
        Some err \<Rightarrow>
          (Fatal (''Error Creating Image File '' @ outputFile cfg @ '': '' @ err),
           tr3 @ [Call_Create (outputFile cfg)])
      | None \<Rightarrow>
     (let tr4 = tr3 @ [Call_Create (outputFile cfg)]
      in case NewWriterLevel fs tr4 of
        Some err \<Rightarrow>
          (Fatal (''Error Creating Compressed Archive '' @ outputFile cfg @ '': '' @ err),
           tr4 @ [Call_NewWriterLevel])
      | None \<Rightarrow>
     (let tr5 = tr4 @ [Call_NewWriterLevel];
          err = Copy fs tr5;
          tr6 = tr5 @ [Call_Copy]
      in (Returned (), tr6 @ [Close_readerCloser, Close_gzipWriter])))))))"

section \<open>The script generator: the template and generateScript\<close>

text \<open>
  The constant \<^verbatim>\<open>loadScriptTemplate\<close> as \<^verbatim>\<open>text/template\<close> parses it: literal text,
  the action \<^verbatim>\<open>{{ .OutputFile }}\<close>, and two \<^verbatim>\<open>range\<close> actions over
  \<^verbatim>\<open>.Descriptor.Images\<close> whose bodies hold literal text and the actions
  \<^verbatim>\<open>{{ .Repository }}\<close> and \<^verbatim>\<open>{{ .Tag }}\<close>. The constant has no trim markers, so
  every byte between two actions is literal text, and \<^verbatim>\<open>text/template\<close> prints a
  string field as it is.
\<close>

datatype image_node = ImageText string | Field_Repository | Field_Tag

datatype node = TextNode string | Field_OutputFile | Range_Images "image_node list"

definition loadScriptName :: string where
  "loadScriptName = ''load-images.sh''"

definition loadScriptTemplate :: "node list" where
  \<open>loadScriptTemplate =
    [TextNode ''#!/bin/bash\<newline>\<newline>repository=${1}\<newline>\<newline>imageFile='',
     Field_OutputFile,
     TextNode (''\<newline>\<newline>if [ "$repository" == "" ]; then\<newline>'' @
       ''    echo "Repository not specified"\<newline>    exit 1\<newline>fi\<newline>\<newline>'' @
       ''echo Loading Images from ${imageFile}\<newline>docker load < ${imageFile}\<newline>\<newline>''),
     Range_Images
       [ImageText ''\<newline>echo "Tagging '', Field_Repository, ImageText '':'', Field_Tag,
        ImageText '' -> ${repository}/'', Field_Repository, ImageText '':'', Field_Tag,
        ImageText ''"\<newline>docker tag '', Field_Repository, ImageText '':'', Field_Tag,
        ImageText '' ${repository}/'', Field_Repository, ImageText '':'', Field_Tag,
        ImageText ''\<newline>''],
     TextNode ''\<newline>\<newline>'',
     Range_Images
       [ImageText ''\<newline>echo "Pushing ${repository}/'', Field_Repository, ImageText '':'',
        Field_Tag,
        ImageText ''"\<newline>docker push ${repository}/'', Field_Repository, ImageText '':'',
        Field_Tag, ImageText ''\<newline>''],
     TextNode '' \<newline>'']\<close>

text \<open>Executing the template on the data \<^verbatim>\<open>{"OutputFile": outputFile, "Descriptor":
  descriptor}\<close>: inside a \<^verbatim>\<open>range\<close> the dot is the current image.\<close>

fun exec_image_node :: "Image \<Rightarrow> image_node \<Rightarrow> string" where
  "exec_image_node img (ImageText t) = t"
| "exec_image_node img Field_Repository = Repository img"
| "exec_image_node img Field_Tag = Tag img"

fun exec_node :: "string \<Rightarrow> Descriptor \<Rightarrow> node \<Rightarrow> string" where
  "exec_node out descriptor (TextNode t) = t"
| "exec_node out descriptor Field_OutputFile = out"
| "exec_node out descriptor (Range_Images body) =
     concat (map (\<lambda>img. concat (map (exec_image_node img) body)) (Images descriptor))"

definition exec_template :: "node list \<Rightarrow> string \<Rightarrow> Descriptor \<Rightarrow> string" where
  "exec_template t out descriptor = concat (map (exec_node out descriptor) t)"

text \<open>
  \<^verbatim>\<open>generateScript\<close>: the template constant parses, so the first \<^verbatim>\<open>log.Fatal\<close> is
  never reached. The error of \<^verbatim>\<open>os.OpenFile\<close> is overwritten unread; an error of
  \<^verbatim>\<open>t.Execute\<close> is fatal; on return the deferred \<^verbatim>\<open>f.Close()\<close> runs.
\<close>

definition generateScript :: "config \<Rightarrow> files \<Rightarrow> Descriptor \<Rightarrow> trace \<Rightarrow> unit outcome \<times> trace" where
  "generateScript cfg fs descriptor tr =
     (let tr1 = tr @ [Log (''Writing load script '' @ [CHR 0x27] @ loadScriptName @ [CHR 0x27])];
          err = OpenFile fs tr1 loadScriptName;
          tr2 = tr1 @ [Call_OpenFile loadScriptName];
          script = exec_template loadScriptTemplate (outputFile cfg) descriptor
      in case Execute fs tr2 script of
           Some err \<Rightarrow> (Fatal (''Error generating load script: '' @ err), tr2 @ [Call_Execute script])
         | None \<Rightarrow> (Returned (), tr2 @ [Call_Execute script, Close_file loadScriptName]))"

section \<open>The pipeline: main\<close>

text \<open>\<^verbatim>\<open>main\<close> after flag parsing: the stages in sequence, each starting only when
  the one before has returned.\<close>

definition main :: "config \<Rightarrow> files \<Rightarrow> 't toml \<Rightarrow> docker \<Rightarrow> unit outcome \<times> trace" where
  "main cfg fs lib cli =
     (case validate cfg fs [] of
        (Fatal msg, tr1) \<Rightarrow> (Fatal msg, tr1)
      | (Returned u, tr1) \<Rightarrow>
     (case loadDescriptor cfg lib tr1 of
        (Fatal msg, tr2) \<Rightarrow> (Fatal msg, tr2)
      | (Returned descriptor, tr2) \<Rightarrow>
     (case pullImages cfg cli (Images descriptor) tr2 of
        (Fatal msg, tr3) \<Rightarrow> (Fatal msg, tr3)
      | (Returned u, tr3) \<Rightarrow>
     (case tagImages cfg cli (Images descriptor) tr3 of
        (Fatal msg, tr4) \<Rightarrow> (Fatal msg, tr4)
      | (Returned u, tr4) \<Rightarrow>
     (case saveImages cfg cli fs (Images descriptor) tr4 of
        (Fatal msg, tr5) \<Rightarrow> (Fatal msg, tr5)
      | (Returned u, tr5) \<Rightarrow> generateScript cfg fs descriptor tr5)))))"

section \<open>Example inputs\<close>

text \<open>The two images of the README's manifest, a third image with the local name of
  the first, and a private image with no tag given.\<close>

definition java8 :: Image where
  "java8 = \<lparr>Registry = [], Repository = ''java'', Tag = ''8'', Public = True\<rparr>"

definition pause :: Image where
  "pause = \<lparr>Registry = ''gcr.io'', Repository = ''google-containers/pause'', Tag = ''1.0'',
     Public = False\<rparr>"

definition java8_mirror :: Image where
  "java8_mirror = \<lparr>Registry = ''mirror.example.com'', Repository = ''java'', Tag = ''8'',
     Public = False\<rparr>"

definition app_untagged :: Image where
  "app_untagged = \<lparr>Registry = ''registry.example.com'', Repository = ''app'', Tag = [],
     Public = False\<rparr>"

text \<open>The flags at their defaults, and with \<^verbatim>\<open>-public\<close>.\<close>

definition cfg_default :: config where
  "cfg_default = \<lparr>inputFile = ''satchel.toml'', outputFile = ''satchel-images.tgz'',
     includePublic = False\<rparr>"

definition cfg_public :: config where
  "cfg_public = \<lparr>inputFile = ''satchel.toml'', outputFile = ''satchel-images.tgz'',
     includePublic = True\<rparr>"

text \<open>Three summaries of a daemon: two root images and a child of the second.\<close>

definition summaries_example :: "ImageSummary list" where
  "summaries_example =
     [\<lparr>ID = ''sha256:aaa'', ParentID = [], RepoTags = [''java:8'']\<rparr>,
      \<lparr>ID = ''sha256:bbb'', ParentID = [],
         RepoTags = [''gcr.io/google-containers/pause:1.0'', ''google-containers/pause:1.0'']\<rparr>,
      \<lparr>ID = ''sha256:ccc'', ParentID = ''sha256:bbb'',
         RepoTags = [''google-containers/pause:1.0'']\<rparr>]"

text \<open>A daemon, a file system and a TOML library whose every operation succeeds; the
  daemon lists the given summaries and the library decodes the given images.\<close>

definition docker_ok :: "ImageSummary list \<Rightarrow> docker" where
  "docker_ok sums =
     \<lparr>NewEnvClient = (\<lambda>tr. None), ImagePull = (\<lambda>tr name. None),
      ImageTag = (\<lambda>tr src dest. None), ImageList = (\<lambda>tr. Inr sums),
      ImageSave = (\<lambda>tr ids. None)\<rparr>"

definition files_ok :: files where
  "files_ok =
     \<lparr>Stat = (\<lambda>tr name. None), Create = (\<lambda>tr name. None), NewWriterLevel = (\<lambda>tr. None),
      Copy = (\<lambda>tr. None), OpenFile = (\<lambda>tr name. None), Execute = (\<lambda>tr text. None)\<rparr>"

definition toml_ok :: "Image list \<Rightarrow> unit toml" where
  "toml_ok images = \<lparr>LoadFile = (\<lambda>tr name. Inr ()), Unmarshal = (\<lambda>tr tree. (images, None))\<rparr>"

text \<open>A daemon that refuses to pull the private image of the README and answers
  every other call.\<close>

definition docker_pull_denied :: "ImageSummary list \<Rightarrow> docker" where
  "docker_pull_denied sums =
     \<lparr>NewEnvClient = (\<lambda>tr. None),
      ImagePull = (\<lambda>tr name.
        if name = ''gcr.io/google-containers/pause:1.0'' then Some ''pull access denied'' else None),
      ImageTag = (\<lambda>tr src dest. None), ImageList = (\<lambda>tr. Inr sums),
      ImageSave = (\<lambda>tr ids. None)\<rparr>"

text \<open>A file system on which the byte copy of the archive fails and every other
  operation succeeds.\<close>

definition files_copy_fails :: files where
  "files_copy_fails =
     \<lparr>Stat = (\<lambda>tr name. None), Create = (\<lambda>tr name. None), NewWriterLevel = (\<lambda>tr. None),
      Copy = (\<lambda>tr. Some ''write satchel-images.tgz: no space left on device''),
      OpenFile = (\<lambda>tr name. None), Execute = (\<lambda>tr text. None)\<rparr>"

text \<open>
  The TOML library on a manifest that is well-formed TOML and does not fit the
  \<^verbatim>\<open>Image\<close> struct, such as an entry with \<^verbatim>\<open>tag = 8\<close> (an integer, where the README
  writes the string \<^verbatim>\<open>"8"\<close>): \<open>LoadFile\<close> gives a tree, \<open>Unmarshal\<close> returns an
  error and stores nothing in the descriptor.
\<close>

definition toml_type_mismatch :: "unit toml" where
  "toml_type_mismatch =
     \<lparr>LoadFile = (\<lambda>tr name. Inr ()),
      Unmarshal = (\<lambda>tr tree. ([], Some (''Can'' @ [CHR 0x27] @ ''t convert 8(int64) to string'')))\<rparr>"

text \<open>A summary list that holds one image ID twice.\<close>

definition summaries_same_id :: "ImageSummary list" where
  "summaries_same_id =
     [\<lparr>ID = ''sha256:aaa'', ParentID = [], RepoTags = [''java:8'']\<rparr>,
      \<lparr>ID = ''sha256:aaa'', ParentID = [], RepoTags = [''java:8'']\<rparr>]"

section \<open>Properties of the resolver\<close>

lemma containsTag_iff: "containsTag tag tags \<longleftrightarrow> tag \<in> set tags"
  by (induction tags) auto

lemma findImageIds_images_eq:
  "findImageIds_images cfg images s imageIds =
     (if \<exists>img \<in> set images. \<not> (Public img \<and> \<not> includePublic cfg) \<and>
           Repository img @ '':'' @ Tag img \<in> set (RepoTags s)
      then imageIds @ [ID s] else imageIds)"
  by (induction images) (auto simp: containsTag_iff ImageNameNoRegistry_def)

lemma findImageIds_summaries_eq:
  "findImageIds_summaries cfg images sums imageIds =
     imageIds @ map ID (filter (selected cfg images) sums)"
proof (induction sums arbitrary: imageIds)
  case Nil
  show ?case by simp
next
  case (Cons s sums)
  have step: "(if ParentID s = [] then findImageIds_images cfg images s imageIds else imageIds) =
      (if selected cfg images s then imageIds @ [ID s] else imageIds)"
    by (simp add: findImageIds_images_eq selected_def)
  show ?case
    unfolding findImageIds_summaries.simps step Cons.IH by simp
qed

lemma findImageIds_eq:
  "findImageIds cfg images sums = map ID (filter (selected cfg images) sums)"
  by (simp add: findImageIds_def findImageIds_summaries_eq)

section \<open>Properties of the stages\<close>

lemma defaultTags_prefix:
  "n \<le> length images \<Longrightarrow>
   fold defaultTag [0..<n] images =
     map (\<lambda>img. if Tag img = [] then img\<lparr>Tag := ''latest''\<rparr> else img) (take n images) @ drop n images"
proof (induction n)
  case 0
  show ?case by simp
next
  case (Suc n)
  let ?g = "\<lambda>img. if Tag img = [] then img\<lparr>Tag := ''latest''\<rparr> else img"
  from Suc.prems have n: "n < length images" by simp
  have at_n: "(map ?g (take n images) @ drop n images) ! n = images ! n"
    using n by (simp add: nth_append)
  have same: "map ?g (take n images) @ drop n images =
      map ?g (take n images) @ images ! n # drop (Suc n) images"
    using n by (simp add: Cons_nth_drop_Suc)
  have upd: "(map ?g (take n images) @ drop n images)[n := v] =
      map ?g (take n images) @ v # drop (Suc n) images" for v
    unfolding same using n by (simp add: list_update_append)
  have "fold defaultTag [0..<Suc n] images = defaultTag n (fold defaultTag [0..<n] images)"
    by simp
  also have "\<dots> = defaultTag n (map ?g (take n images) @ drop n images)"
    using Suc.IH n by simp
  also have "\<dots> = map ?g (take n images) @ ?g (images ! n) # drop (Suc n) images"
    unfolding defaultTag_def at_n using upd same by simp
  also have "\<dots> = map ?g (take (Suc n) images) @ drop (Suc n) images"
    using n by (simp add: take_Suc_conv_app_nth)
  finally show ?case .
qed

lemma defaultTags_eq:
  "defaultTags images = map (\<lambda>img. if Tag img = [] then img\<lparr>Tag := ''latest''\<rparr> else img) images"
  by (simp add: defaultTags_def defaultTags_prefix)

lemma pullImages_loop_skip:
  "Public img \<Longrightarrow> \<not> includePublic cfg \<Longrightarrow>
   pullImages_loop cfg cli (xs @ img # ys) tr = pullImages_loop cfg cli (xs @ ys) tr"
  by (induction xs arbitrary: tr) (simp_all add: Let_def split: option.splits)

lemma tagImages_loop_skip:
  "Public img \<Longrightarrow> \<not> includePublic cfg \<Longrightarrow>
   tagImages_loop cfg cli (xs @ img # ys) tr = tagImages_loop cfg cli (xs @ ys) tr"
  by (induction xs arbitrary: tr) (simp_all add: Let_def)

lemma selected_skip:
  "Public img \<Longrightarrow> \<not> includePublic cfg \<Longrightarrow>
   selected cfg (xs @ img # ys) s = selected cfg (xs @ ys) s"
  by (auto simp: selected_def)

lemma tagImages_loop_eq:
  "tagImages_loop cfg cli images tr =
     (Returned (), tr @ concat (map (\<lambda>img. [Log (''Tagging Image '' @ ImageName img @ '' -> '' @ ImageNameNoRegistry img),
         Call_ImageTag (ImageName img) (ImageNameNoRegistry img)])
       (filter (\<lambda>img. \<not> (Public img \<and> \<not> includePublic cfg)) images)))"
  by (induction images arbitrary: tr) (simp_all add: Let_def)

lemma pullImages_loop_returned:
  "pullImages_loop cfg cli images tr = (Returned u, tr') \<Longrightarrow>
     tr' = tr @ concat (map (\<lambda>img. [Log (''Pulling Image '' @ ImageName img), Call_ImagePull (ImageName img)])
       (filter (\<lambda>img. \<not> (Public img \<and> \<not> includePublic cfg)) images))"
proof (induction images arbitrary: tr)
  case Nil
  then show ?case by simp
next
  case (Cons img images)
  show ?case
  proof (cases "Public img \<and> \<not> includePublic cfg")
    case True
    with Cons.prems have "pullImages_loop cfg cli images tr = (Returned u, tr')" by simp
    from Cons.IH[OF this] True show ?thesis by simp
  next
    case False
    let ?tr1 = "tr @ [Log (''Pulling Image '' @ ImageName img)]"
    let ?tr2 = "?tr1 @ [Call_ImagePull (ImageName img)]"
    from Cons.prems False have ok: "ImagePull cli ?tr1 (ImageName img) = None"
      by (simp add: Let_def split: option.splits)
    with Cons.prems False have "pullImages_loop cfg cli images ?tr2 = (Returned u, tr')"
      by (simp add: Let_def)
    from Cons.IH[OF this] False show ?thesis by simp
  qed
qed

lemma pullImages_loop_ImageTag:
  "pullImages_loop cfg (cli\<lparr>ImageTag := f\<rparr>) images tr = pullImages_loop cfg cli images tr"
  by (induction images arbitrary: tr) (simp_all add: Let_def split: option.splits)

lemma tagImages_loop_ImageTag:
  "tagImages_loop cfg (cli\<lparr>ImageTag := f\<rparr>) images tr = tagImages_loop cfg cli images tr"
  by (simp add: tagImages_loop_eq)

lemma pullImages_ImageTag:
  "pullImages cfg (cli\<lparr>ImageTag := f\<rparr>) images tr = pullImages cfg cli images tr"
  by (simp add: pullImages_def newDockerClient_def pullImages_loop_ImageTag split: option.splits)

lemma tagImages_ImageTag:
  "tagImages cfg (cli\<lparr>ImageTag := f\<rparr>) images tr = tagImages cfg cli images tr"
  by (simp add: tagImages_def newDockerClient_def tagImages_loop_ImageTag split: option.splits)

lemma saveImages_ImageTag:
  "saveImages cfg (cli\<lparr>ImageTag := f\<rparr>) fs images tr = saveImages cfg cli fs images tr"
  by (simp add: saveImages_def newDockerClient_def Let_def split: option.splits sum.splits)

lemma main_ImageTag: "main cfg fs lib (cli\<lparr>ImageTag := f\<rparr>) = main cfg fs lib cli"
  unfolding main_def pullImages_ImageTag tagImages_ImageTag saveImages_ImageTag ..

lemma findImageIds_skip:
  "Public img \<Longrightarrow> \<not> includePublic cfg \<Longrightarrow>
   findImageIds cfg (xs @ img # ys) sums = findImageIds cfg (xs @ ys) sums"
  by (simp add: findImageIds_eq selected_skip cong: filter_cong)

lemma pullImages_skip:
  "Public img \<Longrightarrow> \<not> includePublic cfg \<Longrightarrow>
   pullImages cfg cli (xs @ img # ys) tr = pullImages cfg cli (xs @ ys) tr"
  by (simp add: pullImages_def pullImages_loop_skip split: prod.splits outcome.splits)

lemma tagImages_skip:
  "Public img \<Longrightarrow> \<not> includePublic cfg \<Longrightarrow>
   tagImages cfg cli (xs @ img # ys) tr = tagImages cfg cli (xs @ ys) tr"
  by (simp add: tagImages_def tagImages_loop_skip split: prod.splits outcome.splits)

lemma pullImages_returned:
  assumes "pullImages cfg cli images tr = (Returned u, tr')"
  shows "tr' = tr @ Call_NewEnvClient #
     concat (map (\<lambda>img. [Log (''Pulling Image '' @ ImageName img), Call_ImagePull (ImageName img)])
       (filter (\<lambda>img. \<not> (Public img \<and> \<not> includePublic cfg)) images))"
proof (cases "NewEnvClient cli tr")
  case None
  with assms have "pullImages_loop cfg cli images (tr @ [Call_NewEnvClient]) = (Returned u, tr')"
    by (simp add: pullImages_def newDockerClient_def)
  from pullImages_loop_returned[OF this] show ?thesis by simp
next
  case (Some err)
  with assms show ?thesis by (simp add: pullImages_def newDockerClient_def)
qed

lemma tagImages_returned:
  assumes "tagImages cfg cli images tr = (Returned u, tr')"
  shows "tr' = tr @ Call_NewEnvClient #
     concat (map (\<lambda>img. [Log (''Tagging Image '' @ ImageName img @ '' -> '' @ ImageNameNoRegistry img),
         Call_ImageTag (ImageName img) (ImageNameNoRegistry img)])
       (filter (\<lambda>img. \<not> (Public img \<and> \<not> includePublic cfg)) images))"
proof (cases "NewEnvClient cli tr")
  case None
  with assms show ?thesis by (simp add: tagImages_def newDockerClient_def tagImages_loop_eq)
next
  case (Some err)
  with assms show ?thesis by (simp add: tagImages_def newDockerClient_def)
qed

text \<open>The pull stage on a manifest split at one image, the tag stage once the client
  exists, the stages \<open>main\<close> runs on the loaded descriptor, and the resolver's output as
  a list.\<close>

lemma pullImages_loop_append:
  "pullImages_loop cfg cli (xs @ zs) tr =
     (case pullImages_loop cfg cli xs tr of
        (Fatal msg, tr1) \<Rightarrow> (Fatal msg, tr1)
      | (Returned u, tr1) \<Rightarrow> pullImages_loop cfg cli zs tr1)"
  by (induction xs arbitrary: tr) (simp_all add: Let_def split: option.splits)

lemma pullImages_loop_extends:
  "\<exists>rest. snd (pullImages_loop cfg cli images tr) = tr @ rest"
proof (induction images arbitrary: tr)
  case Nil
  show ?case by simp
next
  case (Cons img images)
  show ?case
  proof (cases "Public img \<and> \<not> includePublic cfg")
    case True
    with Cons.IH[of tr] show ?thesis by simp
  next
    case False
    let ?tr1 = "tr @ [Log (''Pulling Image '' @ ImageName img)]"
    let ?tr2 = "?tr1 @ [Call_ImagePull (ImageName img)]"
    show ?thesis
    proof (cases "ImagePull cli ?tr1 (ImageName img)")
      case None
      from Cons.IH[of ?tr2] obtain rest
        where "snd (pullImages_loop cfg cli images ?tr2) = ?tr2 @ rest" by blast
      with False None show ?thesis by (auto simp: Let_def)
    next
      case (Some err)
      with False show ?thesis by (auto simp: Let_def)
    qed
  qed
qed

lemma pullImages_append:
  "pullImages cfg cli (xs @ zs) tr =
     (case pullImages cfg cli xs tr of
        (Fatal msg, tr1) \<Rightarrow> (Fatal msg, tr1)
      | (Returned u, tr1) \<Rightarrow> pullImages_loop cfg cli zs tr1)"
  by (simp add: pullImages_def newDockerClient_def pullImages_loop_append split: option.splits)

lemma pullImages_reached:
  assumes "\<not> (Public img \<and> \<not> includePublic cfg)"
    and "pullImages cfg cli xs tr = (Returned (), tr2)"
  shows "pullImages cfg cli (xs @ img # ys) tr =
     (case ImagePull cli (tr2 @ [Log (''Pulling Image '' @ ImageName img)]) (ImageName img) of
        Some err \<Rightarrow>
          (Fatal err,
           tr2 @ [Log (''Pulling Image '' @ ImageName img), Call_ImagePull (ImageName img)])
      | None \<Rightarrow>
          pullImages_loop cfg cli ys
            (tr2 @ [Log (''Pulling Image '' @ ImageName img), Call_ImagePull (ImageName img)]))"
  using assms by (auto simp: pullImages_append Let_def split: option.splits)

lemma pullImages_reached_events:
  assumes "\<not> (Public img \<and> \<not> includePublic cfg)"
    and "pullImages cfg cli xs tr = (Returned (), tr2)"
  shows "\<exists>rest. snd (pullImages cfg cli (xs @ img # ys) tr) =
     tr2 @ [Log (''Pulling Image '' @ ImageName img), Call_ImagePull (ImageName img)] @ rest"
proof (cases "ImagePull cli (tr2 @ [Log (''Pulling Image '' @ ImageName img)]) (ImageName img)")
  case None
  obtain rest where "snd (pullImages_loop cfg cli ys
      (tr2 @ [Log (''Pulling Image '' @ ImageName img), Call_ImagePull (ImageName img)])) =
      (tr2 @ [Log (''Pulling Image '' @ ImageName img), Call_ImagePull (ImageName img)]) @ rest"
    using pullImages_loop_extends by blast
  with None show ?thesis
    unfolding pullImages_reached[OF assms] by simp
next
  case (Some err)
  then show ?thesis
    unfolding pullImages_reached[OF assms] by simp
qed

lemma pullImages_not_reached:
  "pullImages cfg cli xs tr = (Fatal msg, tr2) \<Longrightarrow>
   pullImages cfg cli (xs @ img # ys) tr = (Fatal msg, tr2)"
  by (simp add: pullImages_append)

lemma tagImages_client:
  "NewEnvClient cli tr = None \<Longrightarrow>
   tagImages cfg cli images tr =
     (Returned (),
      tr @ Call_NewEnvClient #
        concat (map (\<lambda>img. [Log (''Tagging Image '' @ ImageName img @ '' -> '' @ ImageNameNoRegistry img),
                            Call_ImageTag (ImageName img) (ImageNameNoRegistry img)])
          (filter (\<lambda>img. \<not> (Public img \<and> \<not> includePublic cfg)) images)))"
  by (simp add: tagImages_def newDockerClient_def tagImages_loop_eq)

lemma main_loaded:
  assumes "validate cfg fs [] = (Returned (), tr)"
    and "loadDescriptor cfg lib tr = (Returned descriptor, tr2)"
  shows "main cfg fs lib cli =
     (case pullImages cfg cli (Images descriptor) tr2 of
        (Fatal msg, tr3) \<Rightarrow> (Fatal msg, tr3)
      | (Returned u, tr3) \<Rightarrow>
     (case tagImages cfg cli (Images descriptor) tr3 of
        (Fatal msg, tr4) \<Rightarrow> (Fatal msg, tr4)
      | (Returned u, tr4) \<Rightarrow>
     (case saveImages cfg cli fs (Images descriptor) tr4 of
        (Fatal msg, tr5) \<Rightarrow> (Fatal msg, tr5)
      | (Returned u, tr5) \<Rightarrow> generateScript cfg fs descriptor tr5)))"
  using assms by (simp add: main_def)


text \<open>
  Three facts about results the source does not read: no path through \<open>saveImages\<close>
  closes a file, the answer of the byte copy does not change \<open>saveImages\<close>, and the
  error returned by \<open>Unmarshal\<close> does not change \<open>loadDescriptor\<close>.
\<close>

lemma saveImages_never_closes_file:
  "Close_file name \<notin> set (snd (saveImages cfg cli fs images []))"
  by (simp add: saveImages_def newDockerClient_def Let_def split: option.splits sum.splits)

lemma saveImages_Copy:
  "saveImages cfg cli (fs\<lparr>Copy := answers\<rparr>) images tr = saveImages cfg cli fs images tr"
  by (simp add: saveImages_def newDockerClient_def Let_def split: option.splits sum.splits)

lemma loadDescriptor_Unmarshal_error:
  "loadDescriptor cfg (lib\<lparr>Unmarshal := (\<lambda>tr tree. (fst (Unmarshal lib tr tree), err tr tree))\<rparr>) tr =
   loadDescriptor cfg lib tr"
  by (simp add: loadDescriptor_def Let_def split: sum.splits)

text \<open>The text the template produces, part by part.\<close>

lemma exec_loadScriptTemplate:
  \<open>exec_template loadScriptTemplate out descriptor =
     ''#!/bin/bash\<newline>\<newline>repository=${1}\<newline>\<newline>imageFile='' @ out @
     ''\<newline>\<newline>if [ "$repository" == "" ]; then\<newline>'' @
     ''    echo "Repository not specified"\<newline>    exit 1\<newline>fi\<newline>\<newline>'' @
     ''echo Loading Images from ${imageFile}\<newline>docker load < ${imageFile}\<newline>\<newline>'' @
     concat (map (\<lambda>img.
         ''\<newline>echo "Tagging '' @ Repository img @ '':'' @ Tag img @
         '' -> ${repository}/'' @ Repository img @ '':'' @ Tag img @ ''"\<newline>'' @
         ''docker tag '' @ Repository img @ '':'' @ Tag img @
         '' ${repository}/'' @ Repository img @ '':'' @ Tag img @ ''\<newline>'')
       (Images descriptor)) @
     ''\<newline>\<newline>'' @
     concat (map (\<lambda>img.
         ''\<newline>echo "Pushing ${repository}/'' @ Repository img @ '':'' @ Tag img @ ''"\<newline>'' @
         ''docker push ${repository}/'' @ Repository img @ '':'' @ Tag img @ ''\<newline>'')
       (Images descriptor)) @
     '' \<newline>''\<close>
  by (simp add: exec_template_def loadScriptTemplate_def)

section \<open>The claims\<close>

text \<open>
  Claim C1. For every manifest image list and every daemon summary list, the set of IDs
  returned by \<open>findImageIds\<close> is exactly the set of IDs of the summaries with an empty
  parent ID whose repo-tags contain the local name \<open>repository:tag\<close> of at least
  one manifest image that is not (public while public images are not included).
\<close>

theorem findImageIds_set:
  "set (findImageIds cfg images imageSummaries) =
     {ID s | s. s \<in> set imageSummaries \<and> ParentID s = [] \<and>
        (\<exists>img \<in> set images. \<not> (Public img \<and> \<not> includePublic cfg) \<and>
           Repository img @ '':'' @ Tag img \<in> set (RepoTags s))}"
  by (auto simp: findImageIds_eq selected_def)

text \<open>
  Claim C2, as amended. For every image with \<open>Public\<close> set: when the public-inclusion
  flag is false, the pull stage, the tag stage and the resolver behave exactly as on the
  manifest without that image (no pull call, no tag call, nothing added to the ID set).
  When the flag is true, the resolver selects every root summary that carries the
  image's local name; the tag stage, once the docker client exists, logs and tags every
  manifest image, this one included; and the pull stage pulls the image whenever it
  reaches it: if the stage on the images before it returns, the image's log line and
  pull call come next, whatever happens afterwards. Only a run that has ended before
  (the docker client cannot be created, or an earlier pull fails, which is fatal) does
  not pull it: the second theorem gives such a run.
\<close>

theorem public_filter:
  assumes "Public img"
  shows "(\<not> includePublic cfg \<longrightarrow>
       pullImages cfg cli (xs @ img # ys) tr = pullImages cfg cli (xs @ ys) tr \<and>
       tagImages cfg cli (xs @ img # ys) tr = tagImages cfg cli (xs @ ys) tr \<and>
       findImageIds cfg (xs @ img # ys) imageSummaries = findImageIds cfg (xs @ ys) imageSummaries) \<and>
     (includePublic cfg \<longrightarrow>
       (\<forall>tr2. pullImages cfg cli xs tr = (Returned (), tr2) \<longrightarrow>
          pullImages cfg cli (xs @ img # ys) tr =
            (case ImagePull cli (tr2 @ [Log (''Pulling Image '' @ ImageName img)]) (ImageName img) of
               Some err \<Rightarrow>
                 (Fatal err,
                  tr2 @ [Log (''Pulling Image '' @ ImageName img), Call_ImagePull (ImageName img)])
             | None \<Rightarrow>
                 pullImages_loop cfg cli ys
                   (tr2 @ [Log (''Pulling Image '' @ ImageName img), Call_ImagePull (ImageName img)])) \<and>
          (\<exists>rest. snd (pullImages cfg cli (xs @ img # ys) tr) =
             tr2 @ [Log (''Pulling Image '' @ ImageName img), Call_ImagePull (ImageName img)] @ rest)) \<and>
       (\<forall>msg tr2. pullImages cfg cli xs tr = (Fatal msg, tr2) \<longrightarrow>
          pullImages cfg cli (xs @ img # ys) tr = (Fatal msg, tr2)) \<and>
       (\<forall>tr'. pullImages cfg cli (xs @ img # ys) tr = (Returned (), tr') \<longrightarrow>
          tr' = tr @ Call_NewEnvClient #
            concat (map (\<lambda>i. [Log (''Pulling Image '' @ ImageName i), Call_ImagePull (ImageName i)])
              (xs @ img # ys))) \<and>
       (NewEnvClient cli tr = None \<longrightarrow>
          tagImages cfg cli (xs @ img # ys) tr =
            (Returned (),
             tr @ Call_NewEnvClient #
               concat (map (\<lambda>i. [Log (''Tagging Image '' @ ImageName i @ '' -> '' @ ImageNameNoRegistry i),
                                 Call_ImageTag (ImageName i) (ImageNameNoRegistry i)])
                 (xs @ img # ys)))) \<and>
       (\<forall>tr'. tagImages cfg cli (xs @ img # ys) tr = (Returned (), tr') \<longrightarrow>
          tr' = tr @ Call_NewEnvClient #
            concat (map (\<lambda>i. [Log (''Tagging Image '' @ ImageName i @ '' -> '' @ ImageNameNoRegistry i),
                              Call_ImageTag (ImageName i) (ImageNameNoRegistry i)])
              (xs @ img # ys))) \<and>
       (\<forall>s \<in> set imageSummaries.
          ParentID s = [] \<and> ImageNameNoRegistry img \<in> set (RepoTags s) \<longrightarrow>
          ID s \<in> set (findImageIds cfg (xs @ img # ys) imageSummaries)))"
proof (intro conjI impI allI ballI)
  assume off: "\<not> includePublic cfg"
  from assms off
  show "pullImages cfg cli (xs @ img # ys) tr = pullImages cfg cli (xs @ ys) tr"
    by (rule pullImages_skip)
  from assms off
  show "tagImages cfg cli (xs @ img # ys) tr = tagImages cfg cli (xs @ ys) tr"
    by (rule tagImages_skip)
  from assms off
  show "findImageIds cfg (xs @ img # ys) imageSummaries = findImageIds cfg (xs @ ys) imageSummaries"
    by (rule findImageIds_skip)
next
  fix tr2
  assume on: "includePublic cfg"
    and reached: "pullImages cfg cli xs tr = (Returned (), tr2)"
  from on have pass: "\<not> (Public img \<and> \<not> includePublic cfg)"
    by simp
  from pass reached
  show "pullImages cfg cli (xs @ img # ys) tr =
      (case ImagePull cli (tr2 @ [Log (''Pulling Image '' @ ImageName img)]) (ImageName img) of
         Some err \<Rightarrow>
           (Fatal err,
            tr2 @ [Log (''Pulling Image '' @ ImageName img), Call_ImagePull (ImageName img)])
       | None \<Rightarrow>
           pullImages_loop cfg cli ys
             (tr2 @ [Log (''Pulling Image '' @ ImageName img), Call_ImagePull (ImageName img)]))"
    by (rule pullImages_reached)
  from pass reached
  show "\<exists>rest. snd (pullImages cfg cli (xs @ img # ys) tr) =
      tr2 @ [Log (''Pulling Image '' @ ImageName img), Call_ImagePull (ImageName img)] @ rest"
    by (rule pullImages_reached_events)
next
  fix msg tr2
  assume "pullImages cfg cli xs tr = (Fatal msg, tr2)"
  then show "pullImages cfg cli (xs @ img # ys) tr = (Fatal msg, tr2)"
    by (rule pullImages_not_reached)
next
  fix tr'
  assume on: "includePublic cfg"
    and ret: "pullImages cfg cli (xs @ img # ys) tr = (Returned (), tr')"
  from pullImages_returned[OF ret] on
  show "tr' = tr @ Call_NewEnvClient #
      concat (map (\<lambda>i. [Log (''Pulling Image '' @ ImageName i), Call_ImagePull (ImageName i)])
        (xs @ img # ys))"
    by simp
next
  assume on: "includePublic cfg" and client: "NewEnvClient cli tr = None"
  from tagImages_client[OF client, of cfg "xs @ img # ys"] on
  show "tagImages cfg cli (xs @ img # ys) tr =
      (Returned (),
       tr @ Call_NewEnvClient #
         concat (map (\<lambda>i. [Log (''Tagging Image '' @ ImageName i @ '' -> '' @ ImageNameNoRegistry i),
                           Call_ImageTag (ImageName i) (ImageNameNoRegistry i)])
           (xs @ img # ys)))"
    by simp
next
  fix tr'
  assume on: "includePublic cfg"
    and ret: "tagImages cfg cli (xs @ img # ys) tr = (Returned (), tr')"
  from tagImages_returned[OF ret] on
  show "tr' = tr @ Call_NewEnvClient #
      concat (map (\<lambda>i. [Log (''Tagging Image '' @ ImageName i @ '' -> '' @ ImageNameNoRegistry i),
                        Call_ImageTag (ImageName i) (ImageNameNoRegistry i)])
        (xs @ img # ys))"
    by simp
next
  fix s
  assume "includePublic cfg" and "s \<in> set imageSummaries"
    and "ParentID s = [] \<and> ImageNameNoRegistry img \<in> set (RepoTags s)"
  then show "ID s \<in> set (findImageIds cfg (xs @ img # ys) imageSummaries)"
    by (auto simp: findImageIds_eq selected_def ImageNameNoRegistry_def)
qed

theorem public_image_not_pulled_counterexample:
  "Public java8 \<and> includePublic cfg_public \<and>
   pullImages cfg_public (docker_pull_denied summaries_example) [pause, java8] [] =
     (Fatal ''pull access denied'',
      [Call_NewEnvClient, Log ''Pulling Image gcr.io/google-containers/pause:1.0'',
       Call_ImagePull ''gcr.io/google-containers/pause:1.0'']) \<and>
   Call_ImagePull (ImageName java8)
     \<notin> set (snd (pullImages cfg_public (docker_pull_denied summaries_example) [pause, java8] []))"
  by (simp add: pullImages_def newDockerClient_def docker_pull_denied_def cfg_public_def
      pause_def java8_def ImageName_def Let_def)

theorem public_filter_witness:
  "Public java8 \<and>
   pullImages cfg_default (docker_ok summaries_example) [pause, java8] [] =
     pullImages cfg_default (docker_ok summaries_example) [pause] [] \<and>
   tagImages cfg_default (docker_ok summaries_example) [pause, java8] [] =
     tagImages cfg_default (docker_ok summaries_example) [pause] [] \<and>
   findImageIds cfg_default [pause, java8] summaries_example =
     findImageIds cfg_default [pause] summaries_example \<and>
   pullImages cfg_public (docker_ok summaries_example) [pause, java8] [] =
     (Returned (),
      [Call_NewEnvClient,
       Log ''Pulling Image gcr.io/google-containers/pause:1.0'',
       Call_ImagePull ''gcr.io/google-containers/pause:1.0'',
       Log ''Pulling Image java:8'', Call_ImagePull ''java:8'']) \<and>
   tagImages cfg_public (docker_ok summaries_example) [pause, java8] [] =
     (Returned (),
      [Call_NewEnvClient,
       Log ''Tagging Image gcr.io/google-containers/pause:1.0 -> google-containers/pause:1.0'',
       Call_ImageTag ''gcr.io/google-containers/pause:1.0'' ''google-containers/pause:1.0'',
       Log ''Tagging Image java:8 -> java:8'', Call_ImageTag ''java:8'' ''java:8'']) \<and>
   ''sha256:aaa'' \<in> set (findImageIds cfg_public [pause, java8] summaries_example) \<and>
   pullImages cfg_public (docker_pull_denied summaries_example) [java8, pause] [] =
     (Fatal ''pull access denied'',
      [Call_NewEnvClient, Log ''Pulling Image java:8'', Call_ImagePull ''java:8'',
       Log ''Pulling Image gcr.io/google-containers/pause:1.0'',
       Call_ImagePull ''gcr.io/google-containers/pause:1.0''])"
proof -
  have pub0: "Public java8"
    by (simp add: java8_def)
  have on0: "includePublic cfg_public"
    by (simp add: cfg_public_def)
  let ?denied = "docker_pull_denied summaries_example"
  note reached = public_filter[OF pub0, where cfg = cfg_public and xs = "[]" and ys = "[pause]"
      and cli = ?denied and tr = "[]" and imageSummaries = summaries_example]
  have start: "pullImages cfg_public ?denied [] [] = (Returned (), [Call_NewEnvClient])"
    by (simp add: pullImages_def newDockerClient_def docker_pull_denied_def)
  from reached on0 start
  have "pullImages cfg_public ?denied ([] @ java8 # [pause]) [] =
      (case ImagePull ?denied ([Call_NewEnvClient] @ [Log (''Pulling Image '' @ ImageName java8)])
              (ImageName java8) of
         Some err \<Rightarrow>
           (Fatal err,
            [Call_NewEnvClient] @
              [Log (''Pulling Image '' @ ImageName java8), Call_ImagePull (ImageName java8)])
       | None \<Rightarrow>
           pullImages_loop cfg_public ?denied [pause]
             ([Call_NewEnvClient] @
                [Log (''Pulling Image '' @ ImageName java8), Call_ImagePull (ImageName java8)]))"
    by blast
  then have e: "pullImages cfg_public ?denied [java8, pause] [] =
      (Fatal ''pull access denied'',
       [Call_NewEnvClient, Log ''Pulling Image java:8'', Call_ImagePull ''java:8'',
        Log ''Pulling Image gcr.io/google-containers/pause:1.0'',
        Call_ImagePull ''gcr.io/google-containers/pause:1.0''])"
    by (simp add: docker_pull_denied_def cfg_public_def java8_def pause_def ImageName_def Let_def)
  let ?cli = "docker_ok summaries_example"
  let ?s = "\<lparr>ID = ''sha256:aaa'', ParentID = [], RepoTags = [''java:8'']\<rparr>"
  have pub: "Public java8"
    by (simp add: java8_def)
  have off: "\<not> includePublic cfg_default"
    by (simp add: cfg_default_def)
  have on: "includePublic cfg_public"
    by (simp add: cfg_public_def)
  note skipped = public_filter[OF pub, where cfg = cfg_default and xs = "[pause]" and ys = "[]"
      and cli = ?cli and tr = "[]" and imageSummaries = summaries_example]
  note included = public_filter[OF pub, where cfg = cfg_public and xs = "[pause]" and ys = "[]"
      and cli = ?cli and tr = "[]" and imageSummaries = summaries_example]
  from skipped off
  have a: "pullImages cfg_default ?cli [pause, java8] [] = pullImages cfg_default ?cli [pause] [] \<and>
      tagImages cfg_default ?cli [pause, java8] [] = tagImages cfg_default ?cli [pause] [] \<and>
      findImageIds cfg_default [pause, java8] summaries_example =
        findImageIds cfg_default [pause] summaries_example"
    by simp
  obtain p where p: "pullImages cfg_public ?cli [pause, java8] [] = (Returned (), p)"
    by (simp add: pullImages_def newDockerClient_def docker_ok_def cfg_public_def pause_def
        java8_def Let_def)
  have client: "NewEnvClient ?cli [] = None"
    by (simp add: docker_ok_def)
  from included on client
  obtain t where t2: "tagImages cfg_public ?cli ([pause] @ java8 # []) [] = (Returned (), t)"
    by blast
  then have t: "tagImages cfg_public ?cli [pause, java8] [] = (Returned (), t)"
    by simp
  from p have p2: "pullImages cfg_public ?cli ([pause] @ java8 # []) [] = (Returned (), p)"
    by simp
  from included on p2
  have "p = [] @ Call_NewEnvClient #
      concat (map (\<lambda>i. [Log (''Pulling Image '' @ ImageName i), Call_ImagePull (ImageName i)])
        ([pause] @ java8 # []))"
    by blast
  then have b: "p = [Call_NewEnvClient,
       Log ''Pulling Image gcr.io/google-containers/pause:1.0'',
       Call_ImagePull ''gcr.io/google-containers/pause:1.0'',
       Log ''Pulling Image java:8'', Call_ImagePull ''java:8'']"
    by (simp add: pause_def java8_def ImageName_def)
  from included on t2
  have "t = [] @ Call_NewEnvClient #
      concat (map (\<lambda>i. [Log (''Tagging Image '' @ ImageName i @ '' -> '' @ ImageNameNoRegistry i),
                        Call_ImageTag (ImageName i) (ImageNameNoRegistry i)])
        ([pause] @ java8 # []))"
    by blast
  then have c: "t = [Call_NewEnvClient,
       Log ''Tagging Image gcr.io/google-containers/pause:1.0 -> google-containers/pause:1.0'',
       Call_ImageTag ''gcr.io/google-containers/pause:1.0'' ''google-containers/pause:1.0'',
       Log ''Tagging Image java:8 -> java:8'', Call_ImageTag ''java:8'' ''java:8'']"
    by (simp add: pause_def java8_def ImageName_def ImageNameNoRegistry_def)
  have s: "?s \<in> set summaries_example"
    by (simp add: summaries_example_def)
  have tags: "ParentID ?s = [] \<and> ImageNameNoRegistry java8 \<in> set (RepoTags ?s)"
    by (simp add: java8_def ImageNameNoRegistry_def)
  from included on s tags
  have "ID ?s \<in> set (findImageIds cfg_public ([pause] @ java8 # []) summaries_example)"
    by blast
  then have d: "''sha256:aaa'' \<in> set (findImageIds cfg_public [pause, java8] summaries_example)"
    by simp
  from pub a p t b c d e show ?thesis by simp
qed

text \<open>
  Claim C3. On every exit path of \<open>saveImages\<close>, both the output file handle and the
  daemon's export-stream reader are closed before the stage returns. The source does
  not do this: in a run where every operation succeeds, the stage returns after closing
  the reader and the compressing writer, and the output file it created is not closed.
\<close>

theorem saveImages_output_file_not_closed:
  "saveImages cfg_default (docker_ok summaries_example) files_ok [java8, pause] [] =
     (Returned (),
      [Call_NewEnvClient, Call_ImageList, Call_ImageSave [''sha256:bbb''],
       Log ''Writing images to satchel-images.tgz'', Call_Create ''satchel-images.tgz'',
       Call_NewWriterLevel, Call_Copy, Close_readerCloser, Close_gzipWriter]) \<and>
   Close_file ''satchel-images.tgz''
     \<notin> set (snd (saveImages cfg_default (docker_ok summaries_example) files_ok [java8, pause] []))"
  by (simp add: saveImages_def newDockerClient_def docker_ok_def files_ok_def cfg_default_def
      findImageIds_def summaries_example_def java8_def pause_def ImageNameNoRegistry_def Let_def)

text \<open>
  Claim C4. A failure to create the output file, to open the export stream or to copy
  the bytes is fatal and ends the run. The source does not do this for the copy: with
  a byte copy that fails, \<open>saveImages\<close> returns, and \<open>main\<close> goes on to write the
  load script and returns.
\<close>

theorem saveImages_copy_error_not_fatal:
  "Copy files_copy_fails
       [Call_Stat ''satchel.toml'', Call_LoadFile ''satchel.toml'', Call_Unmarshal,
        Call_NewEnvClient, Log ''Pulling Image gcr.io/google-containers/pause:1.0'',
        Call_ImagePull ''gcr.io/google-containers/pause:1.0'',
        Call_NewEnvClient,
        Log ''Tagging Image gcr.io/google-containers/pause:1.0 -> google-containers/pause:1.0'',
        Call_ImageTag ''gcr.io/google-containers/pause:1.0'' ''google-containers/pause:1.0'',
        Call_NewEnvClient, Call_ImageList, Call_ImageSave [''sha256:bbb''],
        Log ''Writing images to satchel-images.tgz'', Call_Create ''satchel-images.tgz'',
        Call_NewWriterLevel] =
     Some ''write satchel-images.tgz: no space left on device'' \<and>
   main cfg_default files_copy_fails (toml_ok [java8, pause]) (docker_ok summaries_example) =
     (Returned (),
      [Call_Stat ''satchel.toml'', Call_LoadFile ''satchel.toml'', Call_Unmarshal,
       Call_NewEnvClient, Log ''Pulling Image gcr.io/google-containers/pause:1.0'',
       Call_ImagePull ''gcr.io/google-containers/pause:1.0'',
       Call_NewEnvClient,
       Log ''Tagging Image gcr.io/google-containers/pause:1.0 -> google-containers/pause:1.0'',
       Call_ImageTag ''gcr.io/google-containers/pause:1.0'' ''google-containers/pause:1.0'',
       Call_NewEnvClient, Call_ImageList, Call_ImageSave [''sha256:bbb''],
       Log ''Writing images to satchel-images.tgz'', Call_Create ''satchel-images.tgz'',
       Call_NewWriterLevel, Call_Copy, Close_readerCloser, Close_gzipWriter,
       Log (''Writing load script '' @ [CHR 0x27] @ ''load-images.sh'' @ [CHR 0x27]),
       Call_OpenFile ''load-images.sh'',
       Call_Execute (exec_template loadScriptTemplate ''satchel-images.tgz'' \<lparr>Images = [java8, pause]\<rparr>),
       Close_file ''load-images.sh''])"
  by (simp add: main_def validate_def loadDescriptor_def defaultTags_eq pullImages_def
      tagImages_def tagImages_loop_eq saveImages_def generateScript_def newDockerClient_def
      docker_ok_def files_copy_fails_def toml_ok_def cfg_default_def loadScriptName_def
      findImageIds_def summaries_example_def java8_def pause_def ImageName_def
      ImageNameNoRegistry_def Let_def)

text \<open>
  Claim C5. For every manifest and every setting of the flags, the load script that
  \<open>generateScript\<close> writes is the header, then one block with the tag command for
  each manifest image in manifest order, then one block with the push command for each
  manifest image in manifest order. The blocks range over all images of the descriptor
  and read only the repository and the tag: neither an image's public flag nor the
  public-inclusion flag removes a command.
\<close>

theorem generateScript_commands:
  \<open>exec_template loadScriptTemplate (outputFile cfg) descriptor =
     ''#!/bin/bash\<newline>\<newline>repository=${1}\<newline>\<newline>imageFile='' @ outputFile cfg @
     ''\<newline>\<newline>if [ "$repository" == "" ]; then\<newline>'' @
     ''    echo "Repository not specified"\<newline>    exit 1\<newline>fi\<newline>\<newline>'' @
     ''echo Loading Images from ${imageFile}\<newline>docker load < ${imageFile}\<newline>\<newline>'' @
     concat (map (\<lambda>img.
         ''\<newline>echo "Tagging '' @ Repository img @ '':'' @ Tag img @
         '' -> ${repository}/'' @ Repository img @ '':'' @ Tag img @ ''"\<newline>'' @
         ''docker tag '' @ Repository img @ '':'' @ Tag img @
         '' ${repository}/'' @ Repository img @ '':'' @ Tag img @ ''\<newline>'')
       (Images descriptor)) @
     ''\<newline>\<newline>'' @
     concat (map (\<lambda>img.
         ''\<newline>echo "Pushing ${repository}/'' @ Repository img @ '':'' @ Tag img @ ''"\<newline>'' @
         ''docker push ${repository}/'' @ Repository img @ '':'' @ Tag img @ ''\<newline>'')
       (Images descriptor)) @
     '' \<newline>'' \<and>
   Call_Execute (exec_template loadScriptTemplate (outputFile cfg) descriptor)
     \<in> set (snd (generateScript cfg fs descriptor tr))\<close>
proof
  show \<open>Call_Execute (exec_template loadScriptTemplate (outputFile cfg) descriptor)
     \<in> set (snd (generateScript cfg fs descriptor tr))\<close>
    by (simp add: generateScript_def Let_def split: option.splits)
qed (rule exec_loadScriptTemplate)

text \<open>
  Claim C6, as amended. Every daemon summary adds its ID to the output of
  \<open>findImageIds\<close> at most once, also when several manifest images share one local name
  (the inner loop leaves at the first match): the output is the ID list of a sub-list
  of the summaries. So when the daemon's summary list holds no image ID twice, the
  output holds no image ID twice. The resolver itself removes no duplicate: on a
  summary list that holds one ID twice it returns that ID twice, as the second theorem
  computes.
\<close>

theorem findImageIds_distinct:
  "(\<exists>keep. findImageIds cfg images imageSummaries = map ID (filter keep imageSummaries)) \<and>
   (distinct (map ID imageSummaries) \<longrightarrow> distinct (findImageIds cfg images imageSummaries))"
proof
  show "\<exists>keep. findImageIds cfg images imageSummaries = map ID (filter keep imageSummaries)"
    using findImageIds_eq by blast
  show "distinct (map ID imageSummaries) \<longrightarrow> distinct (findImageIds cfg images imageSummaries)"
    by (simp add: findImageIds_eq distinct_map_filter)
qed

theorem findImageIds_duplicate_counterexample:
  "findImageIds cfg_public [java8, java8_mirror] summaries_same_id =
     [''sha256:aaa'', ''sha256:aaa''] \<and>
   \<not> distinct (findImageIds cfg_public [java8, java8_mirror] summaries_same_id)"
  by (simp add: findImageIds_def summaries_same_id_def java8_def java8_mirror_def cfg_public_def
      ImageNameNoRegistry_def)

theorem findImageIds_distinct_witness:
  "distinct (map ID summaries_example) \<and>
   Repository java8 @ '':'' @ Tag java8 = Repository java8_mirror @ '':'' @ Tag java8_mirror \<and>
   findImageIds cfg_public [java8, java8_mirror, pause] summaries_example =
     [''sha256:aaa'', ''sha256:bbb''] \<and>
   distinct (findImageIds cfg_public [java8, java8_mirror, pause] summaries_example)"
proof -
  have d: "distinct (map ID summaries_example)"
    by (simp add: summaries_example_def)
  have "findImageIds cfg_public [java8, java8_mirror, pause] summaries_example =
      [''sha256:aaa'', ''sha256:bbb'']"
    by (simp add: findImageIds_def summaries_example_def java8_def java8_mirror_def pause_def
        cfg_public_def ImageNameNoRegistry_def)
  moreover from d findImageIds_distinct[of cfg_public "[java8, java8_mirror, pause]" summaries_example]
  have "distinct (findImageIds cfg_public [java8, java8_mirror, pause] summaries_example)"
    by blast
  ultimately show ?thesis
    using d by (simp add: java8_def java8_mirror_def)
qed

text \<open>
  Claim C7. When the manifest file loads, every entry whose tag is the empty string after
  parsing comes out of \<open>loadDescriptor\<close> with the tag \<open>latest\<close> and is otherwise
  unchanged, an entry with a tag is returned as it is, and no returned record has an
  empty tag. The default is applied at load time only and stays: \<open>main\<close> runs the
  pull stage, the tag stage, the archiving stage and the script generator on exactly
  the records the loader returned.
\<close>

theorem loadDescriptor_default_tag:
  assumes "LoadFile lib tr (inputFile cfg) = Inr tree"
    and "fst (Unmarshal lib (tr @ [Call_LoadFile (inputFile cfg)]) tree) = parsed"
  shows "\<exists>descriptor tr'. loadDescriptor cfg lib tr = (Returned descriptor, tr') \<and>
     length (Images descriptor) = length parsed \<and>
     (\<forall>i < length parsed.
        (Tag (parsed ! i) = [] \<longrightarrow>
           Images descriptor ! i = (parsed ! i)\<lparr>Tag := ''latest''\<rparr> \<and>
           ImageNameNoRegistry (Images descriptor ! i) = Repository (parsed ! i) @ '':latest'') \<and>
        (Tag (parsed ! i) \<noteq> [] \<longrightarrow> Images descriptor ! i = parsed ! i)) \<and>
     (\<forall>img \<in> set (Images descriptor). Tag img \<noteq> []) \<and>
     (validate cfg fs [] = (Returned (), tr) \<longrightarrow>
        main cfg fs lib cli =
          (case pullImages cfg cli (Images descriptor) tr' of
             (Fatal msg, tr3) \<Rightarrow> (Fatal msg, tr3)
           | (Returned u, tr3) \<Rightarrow>
          (case tagImages cfg cli (Images descriptor) tr3 of
             (Fatal msg, tr4) \<Rightarrow> (Fatal msg, tr4)
           | (Returned u, tr4) \<Rightarrow>
          (case saveImages cfg cli fs (Images descriptor) tr4 of
             (Fatal msg, tr5) \<Rightarrow> (Fatal msg, tr5)
           | (Returned u, tr5) \<Rightarrow> generateScript cfg fs descriptor tr5))))"
proof -
  let ?loaded = "map (\<lambda>img. if Tag img = [] then img\<lparr>Tag := ''latest''\<rparr> else img) parsed"
  let ?descriptor = "\<lparr>Images = ?loaded\<rparr>"
  let ?tr' = "tr @ [Call_LoadFile (inputFile cfg), Call_Unmarshal]"
  from assms have loaded: "loadDescriptor cfg lib tr = (Returned ?descriptor, ?tr')"
    by (simp add: loadDescriptor_def Let_def defaultTags_eq)
  have len: "length (Images ?descriptor) = length parsed"
    by simp
  have tags: "\<forall>i < length parsed.
      (Tag (parsed ! i) = [] \<longrightarrow>
         Images ?descriptor ! i = (parsed ! i)\<lparr>Tag := ''latest''\<rparr> \<and>
         ImageNameNoRegistry (Images ?descriptor ! i) = Repository (parsed ! i) @ '':latest'') \<and>
      (Tag (parsed ! i) \<noteq> [] \<longrightarrow> Images ?descriptor ! i = parsed ! i)"
    by (simp add: ImageNameNoRegistry_def)
  have nonempty: "\<forall>img \<in> set (Images ?descriptor). Tag img \<noteq> []"
    by auto
  have run: "validate cfg fs [] = (Returned (), tr) \<longrightarrow>
      main cfg fs lib cli =
        (case pullImages cfg cli (Images ?descriptor) ?tr' of
           (Fatal msg, tr3) \<Rightarrow> (Fatal msg, tr3)
         | (Returned u, tr3) \<Rightarrow>
        (case tagImages cfg cli (Images ?descriptor) tr3 of
           (Fatal msg, tr4) \<Rightarrow> (Fatal msg, tr4)
         | (Returned u, tr4) \<Rightarrow>
        (case saveImages cfg cli fs (Images ?descriptor) tr4 of
           (Fatal msg, tr5) \<Rightarrow> (Fatal msg, tr5)
         | (Returned u, tr5) \<Rightarrow> generateScript cfg fs ?descriptor tr5)))"
    using main_loaded[OF _ loaded] by blast
  from loaded len tags nonempty run show ?thesis
    by blast
qed

theorem loadDescriptor_default_tag_witness:
  "loadDescriptor cfg_default (toml_ok [app_untagged, pause]) [Call_Stat ''satchel.toml''] =
     (Returned \<lparr>Images = [app_untagged\<lparr>Tag := ''latest''\<rparr>, pause]\<rparr>,
      [Call_Stat ''satchel.toml'', Call_LoadFile ''satchel.toml'', Call_Unmarshal]) \<and>
   main cfg_default files_ok (toml_ok [app_untagged, pause]) (docker_ok summaries_example) =
     (Returned (),
      [Call_Stat ''satchel.toml'', Call_LoadFile ''satchel.toml'', Call_Unmarshal,
       Call_NewEnvClient,
       Log ''Pulling Image registry.example.com/app:latest'',
       Call_ImagePull ''registry.example.com/app:latest'',
       Log ''Pulling Image gcr.io/google-containers/pause:1.0'',
       Call_ImagePull ''gcr.io/google-containers/pause:1.0'',
       Call_NewEnvClient,
       Log ''Tagging Image registry.example.com/app:latest -> app:latest'',
       Call_ImageTag ''registry.example.com/app:latest'' ''app:latest'',
       Log ''Tagging Image gcr.io/google-containers/pause:1.0 -> google-containers/pause:1.0'',
       Call_ImageTag ''gcr.io/google-containers/pause:1.0'' ''google-containers/pause:1.0'',
       Call_NewEnvClient, Call_ImageList, Call_ImageSave [''sha256:bbb''],
       Log ''Writing images to satchel-images.tgz'', Call_Create ''satchel-images.tgz'',
       Call_NewWriterLevel, Call_Copy, Close_readerCloser, Close_gzipWriter,
       Log (''Writing load script '' @ [CHR 0x27] @ ''load-images.sh'' @ [CHR 0x27]),
       Call_OpenFile ''load-images.sh'',
       Call_Execute (exec_template loadScriptTemplate ''satchel-images.tgz''
         \<lparr>Images = [app_untagged\<lparr>Tag := ''latest''\<rparr>, pause]\<rparr>),
       Close_file ''load-images.sh''])"
proof -
  let ?lib = "toml_ok [app_untagged, pause]"
  let ?cli = "docker_ok summaries_example"
  let ?tr = "[Call_Stat ''satchel.toml'']"
  have l: "LoadFile ?lib ?tr (inputFile cfg_default) = Inr ()"
    by (simp add: toml_ok_def)
  have u: "fst (Unmarshal ?lib (?tr @ [Call_LoadFile (inputFile cfg_default)]) ()) =
      [app_untagged, pause]"
    by (simp add: toml_ok_def)
  have v: "validate cfg_default files_ok [] = (Returned (), ?tr)"
    by (simp add: validate_def files_ok_def cfg_default_def)
  from loadDescriptor_default_tag[OF l u, where fs = files_ok and cli = ?cli]
  obtain descriptor tr' where
    r: "loadDescriptor cfg_default ?lib ?tr = (Returned descriptor, tr')"
    and n: "length (Images descriptor) = 2"
    and a: "\<forall>i < 2.
        (Tag ([app_untagged, pause] ! i) = [] \<longrightarrow>
           Images descriptor ! i = ([app_untagged, pause] ! i)\<lparr>Tag := ''latest''\<rparr>) \<and>
        (Tag ([app_untagged, pause] ! i) \<noteq> [] \<longrightarrow> Images descriptor ! i = [app_untagged, pause] ! i)"
    and m: "validate cfg_default files_ok [] = (Returned (), ?tr) \<longrightarrow>
        main cfg_default files_ok ?lib ?cli =
          (case pullImages cfg_default ?cli (Images descriptor) tr' of
             (Fatal msg, tr3) \<Rightarrow> (Fatal msg, tr3)
           | (Returned u, tr3) \<Rightarrow>
          (case tagImages cfg_default ?cli (Images descriptor) tr3 of
             (Fatal msg, tr4) \<Rightarrow> (Fatal msg, tr4)
           | (Returned u, tr4) \<Rightarrow>
          (case saveImages cfg_default ?cli files_ok (Images descriptor) tr4 of
             (Fatal msg, tr5) \<Rightarrow> (Fatal msg, tr5)
           | (Returned u, tr5) \<Rightarrow> generateScript cfg_default files_ok descriptor tr5)))"
    by auto
  from a have "Images descriptor ! 0 = app_untagged\<lparr>Tag := ''latest''\<rparr>"
    by (simp add: app_untagged_def)
  moreover from a have "Images descriptor ! 1 = pause"
    by (simp add: pause_def)
  ultimately have "Images descriptor = [app_untagged\<lparr>Tag := ''latest''\<rparr>, pause]"
    using n by (auto simp: list_eq_iff_nth_eq less_Suc_eq numeral_2_eq_2)
  then have d: "descriptor = \<lparr>Images = [app_untagged\<lparr>Tag := ''latest''\<rparr>, pause]\<rparr>"
    by (cases descriptor) simp
  have t: "tr' = [Call_Stat ''satchel.toml'', Call_LoadFile ''satchel.toml'', Call_Unmarshal]"
    using r by (simp add: loadDescriptor_def toml_ok_def cfg_default_def Let_def)
  from m v have "main cfg_default files_ok ?lib ?cli =
      (case pullImages cfg_default ?cli (Images descriptor) tr' of
         (Fatal msg, tr3) \<Rightarrow> (Fatal msg, tr3)
       | (Returned u, tr3) \<Rightarrow>
      (case tagImages cfg_default ?cli (Images descriptor) tr3 of
         (Fatal msg, tr4) \<Rightarrow> (Fatal msg, tr4)
       | (Returned u, tr4) \<Rightarrow>
      (case saveImages cfg_default ?cli files_ok (Images descriptor) tr4 of
         (Fatal msg, tr5) \<Rightarrow> (Fatal msg, tr5)
       | (Returned u, tr5) \<Rightarrow> generateScript cfg_default files_ok descriptor tr5)))"
    by blast
  then have run: "main cfg_default files_ok ?lib ?cli =
     (Returned (),
      [Call_Stat ''satchel.toml'', Call_LoadFile ''satchel.toml'', Call_Unmarshal,
       Call_NewEnvClient,
       Log ''Pulling Image registry.example.com/app:latest'',
       Call_ImagePull ''registry.example.com/app:latest'',
       Log ''Pulling Image gcr.io/google-containers/pause:1.0'',
       Call_ImagePull ''gcr.io/google-containers/pause:1.0'',
       Call_NewEnvClient,
       Log ''Tagging Image registry.example.com/app:latest -> app:latest'',
       Call_ImageTag ''registry.example.com/app:latest'' ''app:latest'',
       Log ''Tagging Image gcr.io/google-containers/pause:1.0 -> google-containers/pause:1.0'',
       Call_ImageTag ''gcr.io/google-containers/pause:1.0'' ''google-containers/pause:1.0'',
       Call_NewEnvClient, Call_ImageList, Call_ImageSave [''sha256:bbb''],
       Log ''Writing images to satchel-images.tgz'', Call_Create ''satchel-images.tgz'',
       Call_NewWriterLevel, Call_Copy, Close_readerCloser, Close_gzipWriter,
       Log (''Writing load script '' @ [CHR 0x27] @ ''load-images.sh'' @ [CHR 0x27]),
       Call_OpenFile ''load-images.sh'',
       Call_Execute (exec_template loadScriptTemplate ''satchel-images.tgz''
         \<lparr>Images = [app_untagged\<lparr>Tag := ''latest''\<rparr>, pause]\<rparr>),
       Close_file ''load-images.sh''])"
    unfolding d t
    by (simp add: pullImages_def tagImages_def tagImages_loop_eq saveImages_def generateScript_def
        newDockerClient_def docker_ok_def files_ok_def cfg_default_def loadScriptName_def
        findImageIds_def summaries_example_def app_untagged_def pause_def ImageName_def
        ImageNameNoRegistry_def Let_def)
  from r d t run show ?thesis by simp
qed

text \<open>
  Claim C8. The manifest loader either produces the image records declared in the file
  or ends the run with a missing-file or parse error. The source does not do this for
  a file that is well-formed TOML and does not decode into image records: the error of
  \<open>Unmarshal\<close> is dropped, \<open>loadDescriptor\<close> returns an empty descriptor and the
  run goes through every later stage with no image.
\<close>

theorem loadDescriptor_unmarshal_error_not_fatal:
  "Unmarshal toml_type_mismatch [Call_Stat ''satchel.toml'', Call_LoadFile ''satchel.toml''] () =
     ([], Some (''Can'' @ [CHR 0x27] @ ''t convert 8(int64) to string'')) \<and>
   loadDescriptor cfg_default toml_type_mismatch [Call_Stat ''satchel.toml''] =
     (Returned \<lparr>Images = []\<rparr>,
      [Call_Stat ''satchel.toml'', Call_LoadFile ''satchel.toml'', Call_Unmarshal]) \<and>
   main cfg_default files_ok toml_type_mismatch (docker_ok summaries_example) =
     (Returned (),
      [Call_Stat ''satchel.toml'', Call_LoadFile ''satchel.toml'', Call_Unmarshal,
       Call_NewEnvClient, Call_NewEnvClient, Call_NewEnvClient, Call_ImageList, Call_ImageSave [],
       Log ''Writing images to satchel-images.tgz'', Call_Create ''satchel-images.tgz'',
       Call_NewWriterLevel, Call_Copy, Close_readerCloser, Close_gzipWriter,
       Log (''Writing load script '' @ [CHR 0x27] @ ''load-images.sh'' @ [CHR 0x27]),
       Call_OpenFile ''load-images.sh'',
       Call_Execute (exec_template loadScriptTemplate ''satchel-images.tgz'' \<lparr>Images = []\<rparr>),
       Close_file ''load-images.sh''])"
  by (simp add: main_def validate_def loadDescriptor_def defaultTags_def pullImages_def
      tagImages_def saveImages_def generateScript_def newDockerClient_def
      docker_ok_def files_ok_def toml_type_mismatch_def cfg_default_def loadScriptName_def
      findImageIds_def summaries_example_def Let_def)

text \<open>
  Claim C9. An error returned by the daemon's tag operation is never surfaced. Whatever
  the tag operation answers, the tag stage and the whole run behave the same; and once
  the docker client exists the stage returns, having logged and tagged every image
  that passes the public filter, in manifest order, with no other log line.
\<close>

theorem tagImages_ignores_errors:
  "tagImages cfg (cli\<lparr>ImageTag := answers\<rparr>) images tr = tagImages cfg cli images tr \<and>
   main cfg fs lib (cli\<lparr>ImageTag := answers\<rparr>) = main cfg fs lib cli \<and>
   (NewEnvClient cli tr = None \<longrightarrow>
      tagImages cfg cli images tr =
        (Returned (),
         tr @ Call_NewEnvClient #
           concat (map (\<lambda>img. [Log (''Tagging Image '' @ ImageName img @ '' -> '' @ ImageNameNoRegistry img),
                               Call_ImageTag (ImageName img) (ImageNameNoRegistry img)])
             (filter (\<lambda>img. \<not> (Public img \<and> \<not> includePublic cfg)) images))))"
proof (intro conjI impI)
  show "tagImages cfg (cli\<lparr>ImageTag := answers\<rparr>) images tr = tagImages cfg cli images tr"
    by (rule tagImages_ImageTag)
  show "main cfg fs lib (cli\<lparr>ImageTag := answers\<rparr>) = main cfg fs lib cli"
    by (rule main_ImageTag)
next
  assume "NewEnvClient cli tr = None"
  then show "tagImages cfg cli images tr =
      (Returned (),
       tr @ Call_NewEnvClient #
         concat (map (\<lambda>img. [Log (''Tagging Image '' @ ImageName img @ '' -> '' @ ImageNameNoRegistry img),
                             Call_ImageTag (ImageName img) (ImageNameNoRegistry img)])
           (filter (\<lambda>img. \<not> (Public img \<and> \<not> includePublic cfg)) images)))"
    by (simp add: tagImages_def newDockerClient_def tagImages_loop_eq)
qed

theorem tagImages_ignores_errors_witness:
  "ImageTag ((docker_ok summaries_example)\<lparr>ImageTag := (\<lambda>tr src dest. Some ''No such image'')\<rparr>)
       [Call_NewEnvClient,
        Log ''Tagging Image gcr.io/google-containers/pause:1.0 -> google-containers/pause:1.0'']
       ''gcr.io/google-containers/pause:1.0'' ''google-containers/pause:1.0'' = Some ''No such image'' \<and>
   tagImages cfg_default ((docker_ok summaries_example)\<lparr>ImageTag := (\<lambda>tr src dest. Some ''No such image'')\<rparr>)
       [pause, java8, java8_mirror] [] =
     (Returned (),
      [Call_NewEnvClient,
       Log ''Tagging Image gcr.io/google-containers/pause:1.0 -> google-containers/pause:1.0'',
       Call_ImageTag ''gcr.io/google-containers/pause:1.0'' ''google-containers/pause:1.0'',
       Log ''Tagging Image mirror.example.com/java:8 -> java:8'',
       Call_ImageTag ''mirror.example.com/java:8'' ''java:8''])"
proof -
  let ?cli = "(docker_ok summaries_example)\<lparr>ImageTag := (\<lambda>tr src dest. Some ''No such image'')\<rparr>"
  have client: "NewEnvClient ?cli [] = None"
    by (simp add: docker_ok_def)
  from tagImages_ignores_errors[where cfg = cfg_default and cli = ?cli and tr = "[]"
      and images = "[pause, java8, java8_mirror]" and answers = "ImageTag ?cli"
      and fs = files_ok and lib = "toml_ok []"] client
  have "tagImages cfg_default ?cli [pause, java8, java8_mirror] [] =
      (Returned (),
       [] @ Call_NewEnvClient #
         concat (map (\<lambda>img. [Log (''Tagging Image '' @ ImageName img @ '' -> '' @ ImageNameNoRegistry img),
                             Call_ImageTag (ImageName img) (ImageNameNoRegistry img)])
           (filter (\<lambda>img. \<not> (Public img \<and> \<not> includePublic cfg_default))
              [pause, java8, java8_mirror])))"
    by blast
  then show ?thesis
    by (simp add: docker_ok_def cfg_default_def pause_def java8_def java8_mirror_def
        ImageName_def ImageNameNoRegistry_def)
qed



end
